theory Spec2Isabelle
  imports Complex_Main
begin

section \<open>AoikPickChar: the bootstrap layer\<close>

text \<open>
  The repository's sources are \<^verbatim>\<open>src/aoikpickchar/main_init.py\<close> (function
  \<^verbatim>\<open>setup_syspath\<close>) and \<^verbatim>\<open>src/aoikpickchar/__main__.py\<close> (functions
  \<^verbatim>\<open>run_setup_syspath\<close>, \<^verbatim>\<open>check_deps\<close>, \<^verbatim>\<open>main\<close>). Both mutate process-wide
  state (\<^verbatim>\<open>sys.path\<close>, \<^verbatim>\<open>os.environ\<close>, the standard streams), so every function
  of the model takes the state and returns the new one together with its outcome; an
  exception is the outcome \<open>Inl e\<close>, and the state reached when it was raised is kept.
\<close>

subsection \<open>Exceptions and the process state\<close>

text \<open>
  The exception classes that the handlers of the source tell apart. \<open>Exception\<close> stands
  for every other subclass of Python's \<^verbatim>\<open>Exception\<close>, \<open>BaseException\<close> for every
  other direct subclass of \<^verbatim>\<open>BaseException\<close> (such as \<^verbatim>\<open>GeneratorExit\<close>).
  \<open>ImportError\<close> includes its subclass \<^verbatim>\<open>ModuleNotFoundError\<close>.
\<close>

datatype exn =
    SystemExit int
  | KeyboardInterrupt
  | ImportError string
  | AssertionError string
  | Exception string
  | BaseException string

record world =
  sys_path :: "string list"
  environ :: "string \<rightharpoonup> string"
  stderr :: string
  stdout :: string

text \<open>
  The functions of \<^verbatim>\<open>os.path\<close> and the constant \<^verbatim>\<open>os.pathsep\<close> belong to the
  Python standard library, and their results depend on the platform, the working
  directory and the file system. The model takes them as a parameter.
\<close>

record os_path =
  abspath :: "string \<Rightarrow> string"
  join :: "string \<Rightarrow> string \<Rightarrow> string"
  dirname :: "string \<Rightarrow> string"
  isabs :: "string \<Rightarrow> bool"
  isdir :: "string \<Rightarrow> bool"
  isfile :: "string \<Rightarrow> bool"
  pathsep :: char

subsection \<open>Python's built-in string and list operations\<close>

text \<open>
  \<^verbatim>\<open>s.split(sep)\<close> for a separator of one character: the pieces between the
  occurrences of the separator; the result is never empty (\<^verbatim>\<open>''.split(':') == ['']\<close>).
\<close>

fun str_split :: "char \<Rightarrow> string \<Rightarrow> string list" where
  "str_split c [] = [[]]"
| "str_split c (x # xs) =
     (if x = c then [] # str_split c xs
      else (case str_split c xs of
              [] \<Rightarrow> [[x]]
            | w # ws \<Rightarrow> (x # w) # ws))"

text \<open>\<^verbatim>\<open>sep.join(parts)\<close> for a separator of one character.\<close>

fun str_join :: "char \<Rightarrow> string list \<Rightarrow> string" where
  "str_join c [] = []"
| "str_join c [x] = x"
| "str_join c (x # y # ys) = x @ c # str_join c (y # ys)"

text \<open>
  \<^verbatim>\<open>list.remove(x)\<close> deletes the first occurrence of \<open>x\<close>; \<open>None\<close> is the
  \<^verbatim>\<open>ValueError\<close> it raises when there is none.
\<close>

fun list_remove :: "'a \<Rightarrow> 'a list \<Rightarrow> 'a list option" where
  "list_remove x [] = None"
| "list_remove x (y # ys) =
     (if y = x then Some ys else map_option ((#) y) (list_remove x ys))"

text \<open>
  \<^verbatim>\<open>if x not in xs: xs.insert(0, x)\<close>, which \<^verbatim>\<open>setup_syspath\<close> does four times.
\<close>

definition insert_if_absent :: "'a \<Rightarrow> 'a list \<Rightarrow> 'a list" where
  "insert_if_absent x xs = (if x \<in> set xs then xs else x # xs)"

subsection \<open>\<^verbatim>\<open>main_init.py\<close>: \<^verbatim>\<open>setup_syspath\<close>\<close>

text \<open>
  Lines 42 to 51: \<^verbatim>\<open>while True: try: sys.path.remove(path) except ValueError: break\<close>.
\<close>

function remove_loop :: "string \<Rightarrow> string list \<Rightarrow> string list" where
  "remove_loop path sp =
     (case list_remove path sp of
        None \<Rightarrow> sp
      | Some sp' \<Rightarrow> remove_loop path sp')"
  by pat_completeness auto
termination
proof (relation "measure (\<lambda>(path, sp). length sp)")
  show "wf (measure (\<lambda>(path, sp). length sp))"
    by simp
next
  fix path :: string and sp sp' :: "string list"
  have shorter: "list_remove path xs = Some ys \<Longrightarrow> length ys < length xs" for xs ys
    by (induction xs arbitrary: ys) (auto split: if_splits)
  assume "list_remove path sp = Some sp'"
  then show "((path, sp'), (path, sp)) \<in> measure (\<lambda>(path, sp). length sp)"
    by (simp add: shorter)
qed

declare remove_loop.simps [simp del]

text \<open>Lines 40 to 51: the loop over \<^verbatim>\<open>removing_dir_s\<close>.\<close>

fun remove_paths :: "string list \<Rightarrow> string list \<Rightarrow> string list" where
  "remove_paths [] sp = sp"
| "remove_paths (path # rest) sp = remove_paths rest (remove_loop path sp)"

text \<open>Lines 27 to 35: the paths to remove; \<open>current_dir = None\<close> is the default.\<close>

definition removing_dir_s :: "os_path \<Rightarrow> string option \<Rightarrow> string list" where
  "removing_dir_s os current_dir =
     [[], ''.''] @ (case current_dir of None \<Rightarrow> [] | Some d \<Rightarrow> [abspath os d])"

text \<open>Line 68 and 71: the dependency root of an (absolute) package root.\<close>

definition dep_root_of :: "os_path \<Rightarrow> string \<Rightarrow> string" where
  "dep_root_of os package_root = abspath os (join os package_root ''aoikpickchardep'')"

text \<open>
  Lines 85 to 91: the paths in \<^verbatim>\<open>PYTHONPATH\<close>, as the source reads them
  (\<^verbatim>\<open>os.environ.get('PYTHONPATH', '').split(os.pathsep)\<close>), before and after they are
  made absolute.
\<close>

definition pythonpath_entries :: "os_path \<Rightarrow> world \<Rightarrow> string list" where
  "pythonpath_entries os w =
     str_split (pathsep os) (case environ w ''PYTHONPATH'' of None \<Rightarrow> [] | Some v \<Rightarrow> v)"

definition pythonpath_dir_s :: "os_path \<Rightarrow> world \<Rightarrow> string list" where
  "pythonpath_dir_s os w = map (abspath os) (pythonpath_entries os w)"

text \<open>
  The whole function. An \<^verbatim>\<open>assert\<close> that fails raises \<^verbatim>\<open>AssertionError\<close> with the
  path as its message; the removals made before it stay in the state.
\<close>

definition setup_syspath ::
  "os_path \<Rightarrow> string \<Rightarrow> string option \<Rightarrow> world \<Rightarrow> world \<times> (exn + unit)" where
  "setup_syspath os package_root current_dir w =
     (let w1 = w\<lparr>sys_path := remove_paths (removing_dir_s os current_dir) (sys_path w)\<rparr>;
          package_root = abspath os package_root
      in if \<not> isabs os package_root then (w1, Inl (AssertionError package_root))
         else if \<not> isdir os package_root then (w1, Inl (AssertionError package_root))
         else
           let w2 = w1\<lparr>sys_path := insert_if_absent package_root (sys_path w1)\<rparr>;
               dep_root = dep_root_of os package_root
           in if \<not> isabs os dep_root then (w2, Inl (AssertionError dep_root))
              else if \<not> isdir os dep_root then (w2, Inl (AssertionError dep_root))
              else
                let w3 = w2\<lparr>sys_path := insert_if_absent dep_root (sys_path w2)\<rparr>;
                    new_pythonpath =
                      str_join (pathsep os)
                        (insert_if_absent dep_root
                          (insert_if_absent package_root (pythonpath_dir_s os w3)))
                in (w3\<lparr>environ := (environ w3)(''PYTHONPATH'' \<mapsto> new_pythonpath)\<rparr>,
                    Inr ()))"

subsection \<open>\<^verbatim>\<open>__main__.py\<close>\<close>

text \<open>
  What \<^verbatim>\<open>main\<close> meets outside the repository's own code:
  \<^item> \<open>module_file\<close> is the module's \<^verbatim>\<open>__file__\<close>;
  \<^item> \<open>exec_main_init path\<close> is the outcome of lines 48 to 59 of \<^verbatim>\<open>__main__.py\<close>
    (opening and reading the file at \<open>path\<close>, executing its code and looking up
    \<^verbatim>\<open>setup_syspath\<close> in the context dict): \<open>None\<close> when the function found
    is \<^verbatim>\<open>setup_syspath\<close> of \<^verbatim>\<open>main_init.py\<close>, \<open>Some e\<close> when \<open>e\<close> is raised;
  \<^item> \<open>import_module name w\<close> is the outcome of \<^verbatim>\<open>import name\<close> in state \<open>w\<close>
    (import resolution reads \<^verbatim>\<open>sys.path\<close>): \<open>None\<close> when the import succeeds;
  \<^item> \<open>main_inner\<close> is the function of module \<^verbatim>\<open>aoikpickchar.main_inner\<close>, which is
    not among the sources: it may change the state, and returns an exit code or raises;
  \<^item> \<open>stderr_write text w\<close> is the outcome of \<^verbatim>\<open>sys.stderr.write(text)\<close> in state
    \<open>w\<close>: \<open>None\<close> when the text is written, \<open>Some e\<close> when the call raises \<open>e\<close>
    (\<^verbatim>\<open>AttributeError\<close> when \<^verbatim>\<open>sys.stderr\<close> is \<^verbatim>\<open>None\<close>, \<^verbatim>\<open>ValueError\<close> when the
    stream is closed, \<^verbatim>\<open>OSError\<close> on a broken pipe, \<^verbatim>\<open>KeyboardInterrupt\<close> when the
    user interrupts meanwhile);
  \<^item> \<open>format_exc e\<close> is the outcome of \<^verbatim>\<open>traceback.format_exc()\<close> while \<open>e\<close> is
    being handled: the text, or the exception that the call raises (an interrupt
    by the user).
\<close>

record py_env =
  os_lib :: os_path
  module_file :: string
  exec_main_init :: "string \<Rightarrow> exn option"
  import_module :: "string \<Rightarrow> world \<Rightarrow> exn option"
  main_inner :: "string list option \<Rightarrow> world \<Rightarrow> world \<times> (exn + int)"
  stderr_write :: "string \<Rightarrow> world \<Rightarrow> exn option"
  format_exc :: "exn \<Rightarrow> exn + string"

text \<open>
  \<^verbatim>\<open>sys.stderr.write(text)\<close>: the text is appended to the error stream, or the call
  raises; what a failing write leaves on the stream is not modelled, the stream is
  then as before.
\<close>

definition write_stderr :: "py_env \<Rightarrow> string \<Rightarrow> world \<Rightarrow> world \<times> (exn + unit)" where
  "write_stderr env text w =
     (case stderr_write env text w of
        None \<Rightarrow> (w\<lparr>stderr := stderr w @ text\<rparr>, Inr ())
      | Some e \<Rightarrow> (w, Inl e))"

text \<open>
  \<^verbatim>\<open>run_setup_syspath\<close> (lines 13 to 62). \<^verbatim>\<open>os.path.join\<close> of three components is
  the join of the first two with the third.
\<close>

definition run_setup_syspath ::
  "py_env \<Rightarrow> string \<Rightarrow> string option \<Rightarrow> world \<Rightarrow> world \<times> (exn + unit)" where
  "run_setup_syspath env package_root current_dir w =
     (let package_root = abspath (os_lib env) package_root
      in if \<not> isabs (os_lib env) package_root then (w, Inl (AssertionError package_root))
         else
           let main_init_file_path =
                 join (os_lib env) (join (os_lib env) package_root ''aoikpickchar'') ''main_init.py''
           in if \<not> isabs (os_lib env) main_init_file_path
                then (w, Inl (AssertionError main_init_file_path))
              else if \<not> isfile (os_lib env) main_init_file_path
                then (w, Inl (AssertionError main_init_file_path))
              else (case exec_main_init env main_init_file_path of
                      Some e \<Rightarrow> (w, Inl e)
                    | None \<Rightarrow> setup_syspath (os_lib env) package_root current_dir w))"

text \<open>Line 81 to 84: the message of \<^verbatim>\<open>check_deps\<close>.\<close>

definition missing_pil_msg :: string where
  "missing_pil_msg =
     ''Error: Package `PIL` is not installed. Try:'' @ [CHR 0x0A] @
     ''pip install pillow'' @ [CHR 0x0A]"

text \<open>
  \<^verbatim>\<open>check_deps\<close>: \<^verbatim>\<open>except ImportError\<close> catches that class only, every other exception
  of the import leaves the function.
\<close>

definition check_deps :: "py_env \<Rightarrow> world \<Rightarrow> exn + string option" where
  "check_deps env w =
     (case import_module env ''PIL'' w of
        None \<Rightarrow> Inr None
      | Some (ImportError m) \<Rightarrow> Inr (Some missing_pil_msg)
      | Some e \<Rightarrow> Inl e)"

text \<open>
  Lines 104 to 109: the call of \<^verbatim>\<open>run_setup_syspath\<close>, with the directory above the
  module's directory as package root and the module's directory as current directory.
\<close>

definition bootstrap :: "py_env \<Rightarrow> world \<Rightarrow> world \<times> (exn + unit)" where
  "bootstrap env w =
     (let this_file = abspath (os_lib env) (module_file env)
      in run_setup_syspath env
           (dirname (os_lib env) (dirname (os_lib env) this_file))
           (Some (dirname (os_lib env) this_file)) w)"

text \<open>
  Lines 102 to 128: the suite of the \<^verbatim>\<open>try\<close> statement of \<^verbatim>\<open>main\<close>. The write of
  line 117 is inside the suite: an exception that it raises meets the handlers below.
\<close>

definition main_try :: "py_env \<Rightarrow> string list option \<Rightarrow> world \<Rightarrow> world \<times> (exn + int)" where
  "main_try env args w =
     (case bootstrap env w of
        (w1, Inl e) \<Rightarrow> (w1, Inl e)
      | (w1, Inr u) \<Rightarrow>
          (case check_deps env w1 of
             Inl e \<Rightarrow> (w1, Inl e)
           | Inr (Some error_msg) \<Rightarrow>
               (case write_stderr env error_msg w1 of
                  (w2, Inl e) \<Rightarrow> (w2, Inl e)
                | (w2, Inr u) \<Rightarrow> (w2, Inr (- 100)))
           | Inr None \<Rightarrow>
               (case import_module env ''aoikpickchar.main_inner'' w1 of
                  Some e \<Rightarrow> (w1, Inl e)
                | None \<Rightarrow> main_inner env args w1)))"

text \<open>Line 146: the message of the last handler.\<close>

definition traceback_msg :: "string \<Rightarrow> string" where
  "traceback_msg tb_msg =
     ''Traceback:'' @ [CHR 0x0A] @ ''---'' @ [CHR 0x0A] @ tb_msg @ ''---'' @ [CHR 0x0A]"

text \<open>
  Lines 141 to 152: the last handler. No handler encloses it, so an exception raised
  by \<^verbatim>\<open>format_exc()\<close> or by the write of line 149 leaves \<^verbatim>\<open>main\<close>.
\<close>

definition handle_other :: "py_env \<Rightarrow> exn \<Rightarrow> world \<Rightarrow> world \<times> (exn + int)" where
  "handle_other env e w =
     (case format_exc env e of
        Inl e' \<Rightarrow> (w, Inl e')
      | Inr tb_msg \<Rightarrow>
          (case write_stderr env (traceback_msg tb_msg) w of
             (w', Inl e') \<Rightarrow> (w', Inl e')
           | (w', Inr u) \<Rightarrow> (w', Inr (- 1))))"

text \<open>
  \<^verbatim>\<open>main\<close>: the \<^verbatim>\<open>try\<close> statement with its three handlers, in the source's order.
  \<open>Inl e\<close> is an exception that reaches the caller.
\<close>

definition main :: "py_env \<Rightarrow> string list option \<Rightarrow> world \<Rightarrow> world \<times> (exn + int)" where
  "main env args w =
     (case main_try env args w of
        (w', Inr code) \<Rightarrow> (w', Inr code)
      | (w', Inl (SystemExit c)) \<Rightarrow> (w', Inl (SystemExit c))
      | (w', Inl KeyboardInterrupt) \<Rightarrow> (w', Inr 0)
      | (w', Inl e) \<Rightarrow> handle_other env e w')"

subsection \<open>A POSIX instance of the standard library\<close>

text \<open>
  The functions of Python's \<^verbatim>\<open>posixpath\<close> module, for a working directory \<open>cwd\<close> and
  a file system given by the lists of its directories and files. They are used to
  run the model on concrete inputs.
\<close>

definition posix_isabs :: "string \<Rightarrow> bool" where
  "posix_isabs s = (case s of [] \<Rightarrow> False | c # cs \<Rightarrow> c = CHR ''/'')"

definition posix_join :: "string \<Rightarrow> string \<Rightarrow> string" where
  "posix_join a b =
     (if posix_isabs b then b
      else if a = [] \<or> last a = CHR ''/'' then a @ b
      else a @ CHR ''/'' # b)"

definition normpath_step :: "nat \<Rightarrow> string list \<Rightarrow> string \<Rightarrow> string list" where
  "normpath_step initial_slashes new_comps part =
     (if part = [] \<or> part = ''.'' then new_comps
      else if part \<noteq> ''..'' \<or> (initial_slashes = 0 \<and> new_comps = [])
                \<or> (new_comps \<noteq> [] \<and> last new_comps = ''..'')
        then new_comps @ [part]
      else if new_comps \<noteq> [] then butlast new_comps
      else new_comps)"

definition posix_normpath :: "string \<Rightarrow> string" where
  "posix_normpath path =
     (if path = [] then ''.''
      else
        let initial_slashes =
              (if take 1 path = ''/'' then
                 (if take 2 path = ''//'' \<and> take 3 path \<noteq> ''///'' then 2 else 1)
               else (0::nat));
            new_comps =
              foldl (normpath_step initial_slashes) [] (str_split (CHR ''/'') path);
            path' = replicate initial_slashes (CHR ''/'') @ str_join (CHR ''/'') new_comps
        in if path' = [] then ''.'' else path')"

definition posix_abspath :: "string \<Rightarrow> string \<Rightarrow> string" where
  "posix_abspath cwd path =
     posix_normpath (if posix_isabs path then path else posix_join cwd path)"

definition posix_dirname :: "string \<Rightarrow> string" where
  "posix_dirname p =
     (let head = rev (dropWhile (\<lambda>c. c \<noteq> CHR ''/'') (rev p))
      in if head \<noteq> [] \<and> head \<noteq> replicate (length head) (CHR ''/'')
           then rev (dropWhile (\<lambda>c. c = CHR ''/'') (rev head))
         else head)"

definition posix :: "string \<Rightarrow> string list \<Rightarrow> string list \<Rightarrow> os_path" where
  "posix cwd dirs files =
     \<lparr>abspath = posix_abspath cwd, join = posix_join, dirname = posix_dirname,
      isabs = posix_isabs, isdir = (\<lambda>p. p \<in> set dirs), isfile = (\<lambda>p. p \<in> set files),
      pathsep = CHR '':''\<rparr>"

section \<open>The character picker and the image composer\<close>

text \<open>
  \<^verbatim>\<open>main\<close> hands over to \<^verbatim>\<open>aoikpickchar.main_inner\<close>, a module of this repository
  that is not among the sources. The specification describes its parts (sections 3,
  4.2, 4.5); the definitions of this section follow the specification's words.
\<close>

text \<open>
  Modelled from the spec: a character of the missing module is a code point (section 3).
\<close>

type_synonym character = nat

text \<open>
  Modelled from the spec: the errors of the missing Character Picker and Image Composer
  (sections 4.2, 4.5 and 7).
\<close>

datatype core_error = InsufficientPoolError | EmptyBatchError

text \<open>
  Modelled from the spec: the data model's PickRequest (count, optional seed, pool) of the
  missing module \<^verbatim>\<open>aoikpickchar.main_inner\<close>. The pool is a CharacterPool: an ordered
  sequence of code points, by its invariant non-empty and free of duplicates.
\<close>

record pick_request =
  count :: nat
  seed :: "int option"
  pool :: "character list"

text \<open>
  Modelled from the spec: the entropy algorithm of the missing Character Picker, which
  the specification leaves open (``once a reference entropy algorithm is chosen''). It
  is a parameter: how a seed initialises the generator, and how the generator yields
  one draw and its next state.
\<close>

record 'g generator =
  seed_state :: "int \<Rightarrow> 'g"
  next_draw :: "'g \<Rightarrow> nat \<times> 'g"

text \<open>
  Modelled from the spec: the draws of the missing Character Picker with replacement
  (section 4.2): every draw is from the whole pool. No character can be drawn from an
  empty pool, which the invariant of CharacterPool excludes.
\<close>

fun draw_with_replacement ::
  "('g \<Rightarrow> nat \<times> 'g) \<Rightarrow> character list \<Rightarrow> nat \<Rightarrow> 'g \<Rightarrow> character list" where
  "draw_with_replacement nxt cs 0 g = []"
| "draw_with_replacement nxt cs (Suc n) g =
     (if cs = [] then []
      else case nxt g of (v, g') \<Rightarrow>
             cs ! (v mod length cs) # draw_with_replacement nxt cs n g')"

text \<open>
  Modelled from the spec: the draws of the missing Character Picker without replacement
  (section 4.2): the drawn character leaves the pool before the next draw.
\<close>

fun draw_without_replacement ::
  "('g \<Rightarrow> nat \<times> 'g) \<Rightarrow> character list \<Rightarrow> nat \<Rightarrow> 'g \<Rightarrow> character list" where
  "draw_without_replacement nxt cs 0 g = []"
| "draw_without_replacement nxt cs (Suc n) g =
     (if cs = [] then []
      else case nxt g of (v, g') \<Rightarrow>
             (let i = v mod length cs
              in cs ! i # draw_without_replacement nxt (take i cs @ drop (Suc i) cs) n g'))"

text \<open>
  Modelled from the spec: the missing Character Picker (section 4.2). With a seed the
  generator starts from the seed, without one from the ambient entropy of the run
  (\<open>entropy\<close>); sampling is without replacement unless \<open>replacement\<close> is requested, and
  then fails with InsufficientPoolError when the count exceeds the pool size.
\<close>

definition pick ::
  "'g generator \<Rightarrow> 'g \<Rightarrow> bool \<Rightarrow> pick_request \<Rightarrow> core_error + character list" where
  "pick gen entropy replacement req =
     (let g = (case seed req of Some s \<Rightarrow> seed_state gen s | None \<Rightarrow> entropy)
      in if replacement
           then Inr (draw_with_replacement (next_draw gen) (pool req) (count req) g)
         else if count req > length (pool req) then Inl InsufficientPoolError
         else Inr (draw_without_replacement (next_draw gen) (pool req) (count req) g))"

text \<open>
  Modelled from the spec: the data model's RenderedGlyph of the missing module (section
  3): a glyph canvas with its source character.
\<close>

record rendered_glyph =
  source_char :: character
  glyph_width :: nat
  glyph_height :: nat
  glyph_pixels :: "nat list"

text \<open>
  Modelled from the spec: the data model's ComposedImage of the missing module (section
  3): the rows of cells, the uniform cell size and the size of the whole image.
\<close>

record composed_image =
  cells :: "rendered_glyph list list"
  cell_width :: nat
  cell_height :: nat
  image_width :: nat
  image_height :: nat

text \<open>
  Modelled from the spec: the layout modes of the missing Image Composer (section 4.5):
  \<open>single\<close>, \<open>horizontal-strip\<close>, and \<open>grid\<close> with its column count.
\<close>

datatype layout = Single | HorizontalStrip | Grid nat

text \<open>
  Modelled from the spec: the placement of the missing Image Composer (section 4.5),
  ``left-to-right, top-to-bottom in pick order'': a row is filled with the next
  \<open>columns\<close> glyphs until none is left.
\<close>

function grid_rows :: "nat \<Rightarrow> 'a list \<Rightarrow> 'a list list" where
  "grid_rows columns gs =
     (if columns = 0 \<or> gs = [] then []
      else take columns gs # grid_rows columns (drop columns gs))"
  by pat_completeness auto
termination
  by (relation "measure (\<lambda>(columns, gs). length gs)") auto

declare grid_rows.simps [simp del]

text \<open>
  Modelled from the spec: the missing Image Composer (section 4.5). It fails with
  EmptyBatchError on zero glyphs; every cell has the largest width and height of the
  batch, and cells are \<open>padding_px\<close> apart. The specification does not say what the
  \<open>single\<close> layout does with several glyphs; the model lays them as a strip.
\<close>

definition compose :: "layout \<Rightarrow> nat \<Rightarrow> rendered_glyph list \<Rightarrow> core_error + composed_image" where
  "compose lay padding_px gs =
     (if gs = [] then Inl EmptyBatchError
      else
        let rows = (case lay of Grid columns \<Rightarrow> grid_rows columns gs | _ \<Rightarrow> [gs]);
            cw = Max (set (map glyph_width gs));
            ch = Max (set (map glyph_height gs));
            ncols = (case lay of Grid columns \<Rightarrow> min columns (length gs) | _ \<Rightarrow> length gs);
            nrows = length rows
        in Inr \<lparr>cells = rows, cell_width = cw, cell_height = ch,
                image_width = ncols * cw + (ncols - 1) * padding_px,
                image_height = nrows * ch + (nrows - 1) * padding_px\<rparr>)"

text \<open>
  Modelled from the spec: the Glyph Renderer and the encoder of the Output Writer of the
  missing pipeline (sections 4.4 and 4.6). Both belong to the font and imaging libraries
  and are parameters; the glyphs that the composer receives come from the rasteriser.
\<close>

record 'st imaging =
  rasterize :: "'st \<Rightarrow> character \<Rightarrow> rendered_glyph"
  encode :: "composed_image \<Rightarrow> nat list"

text \<open>
  A linear congruential generator, to run the picker on concrete inputs.
\<close>

definition lcg :: "int generator" where
  "lcg = \<lparr>seed_state = (\<lambda>s. s mod 2147483648),
          next_draw = (\<lambda>g. (nat (g div 65536), (1103515245 * g + 12345) mod 2147483648))\<rparr>"

section \<open>Concrete inputs\<close>

text \<open>
  A POSIX system with working directory \<^verbatim>\<open>/home/u\<close> where the package is installed
  under \<^verbatim>\<open>/p\<close>, one where it is installed under a directory whose name contains the
  path separator, and a process state whose \<^verbatim>\<open>sys.path\<close> holds the script directory
  twice.
\<close>

definition example_os :: os_path where
  "example_os = posix ''/home/u'' [''/p'', ''/p/aoikpickchardep''] [''/p/aoikpickchar/main_init.py'']"

definition colon_os :: os_path where
  "colon_os = posix ''/home/u'' [''/a:b'', ''/a:b/aoikpickchardep''] []"

text \<open>
  Runs of \<^verbatim>\<open>main\<close> from \<^verbatim>\<open>/p/aoikpickchar/__main__.py\<close> with a working error
  stream: one where \<^verbatim>\<open>PIL\<close> is not installed; the same with the directory
  \<^verbatim>\<open>aoikpickchardep\<close> missing as well; one where the core module
  \<^verbatim>\<open>aoikpickchar.main_inner\<close> is missing; one where \<^verbatim>\<open>main_inner\<close> prints and then
  fails; one where the user interrupts \<^verbatim>\<open>main_inner\<close>; and one where \<^verbatim>\<open>main_inner\<close>
  exits with \<^verbatim>\<open>SystemExit(2)\<close>.
\<close>

definition no_pil_env :: py_env where
  "no_pil_env =
     \<lparr>os_lib = example_os, module_file = ''/p/aoikpickchar/__main__.py'',
      exec_main_init = (\<lambda>path. None),
      import_module = (\<lambda>name w. if name = ''PIL'' then Some (ImportError ''PIL'') else None),
      main_inner = (\<lambda>args w. (w\<lparr>stdout := stdout w @ ''ok''\<rparr>, Inr 0)),
      stderr_write = (\<lambda>text w. None),
      format_exc = (\<lambda>e. Inr (''trace'' @ [CHR 0x0A]))\<rparr>"

definition no_dep_dir_env :: py_env where
  "no_dep_dir_env =
     no_pil_env\<lparr>os_lib := posix ''/home/u'' [''/p''] [''/p/aoikpickchar/main_init.py'']\<rparr>"

definition no_core_env :: py_env where
  "no_core_env =
     no_pil_env\<lparr>import_module :=
       (\<lambda>name w. if name = ''aoikpickchar.main_inner''
                  then Some (ImportError ''aoikpickchar.main_inner'') else None)\<rparr>"

definition failing_env :: py_env where
  "failing_env =
     no_pil_env\<lparr>import_module := (\<lambda>name w. None),
       main_inner := (\<lambda>args w. (w\<lparr>stdout := stdout w @ ''ok''\<rparr>, Inl (Exception ''FontLoadError'')))\<rparr>"

definition interrupted_env :: py_env where
  "interrupted_env =
     no_pil_env\<lparr>import_module := (\<lambda>name w. None),
       main_inner := (\<lambda>args w. (w\<lparr>stdout := stdout w @ ''ok''\<rparr>, Inl KeyboardInterrupt))\<rparr>"

definition exiting_env :: py_env where
  "exiting_env =
     no_pil_env\<lparr>import_module := (\<lambda>name w. None),
       main_inner := (\<lambda>args w. (w\<lparr>stderr := stderr w @ ''usage''\<rparr>, Inl (SystemExit 2)))\<rparr>"

text \<open>
  Runs in which the error stream does not work: \<^verbatim>\<open>main_inner\<close> fails and the stream
  is closed (\<^verbatim>\<open>ValueError\<close>); \<^verbatim>\<open>main_inner\<close> fails and the user interrupts the
  writing of the traceback; the core module is missing and \<^verbatim>\<open>sys.stderr\<close> is
  \<^verbatim>\<open>None\<close> (\<^verbatim>\<open>AttributeError\<close>).
\<close>

definition closed_stderr_env :: py_env where
  "closed_stderr_env =
     failing_env\<lparr>stderr_write := (\<lambda>text w. Some (Exception ''ValueError''))\<rparr>"

definition interrupted_write_env :: py_env where
  "interrupted_write_env =
     failing_env\<lparr>stderr_write := (\<lambda>text w. Some KeyboardInterrupt)\<rparr>"

definition no_stderr_env :: py_env where
  "no_stderr_env =
     no_core_env\<lparr>stderr_write := (\<lambda>text w. Some (Exception ''AttributeError''))\<rparr>"

definition example_world :: world where
  "example_world =
     \<lparr>sys_path = [[], ''/p/aoikpickchar'', ''/usr/lib/python3'', ''.'', ''/p/aoikpickchar''],
      environ = [''PYTHONPATH'' \<mapsto> ''/x:lib''], stderr = [], stdout = []\<rparr>"

text \<open>The state that \<^verbatim>\<open>setup_syspath\<close> leaves on this system.\<close>

definition booted_world :: world where
  "booted_world =
     \<lparr>sys_path = [''/p/aoikpickchardep'', ''/p'', ''/usr/lib/python3''],
      environ = [''PYTHONPATH'' \<mapsto> ''/p/aoikpickchardep:/p:/x:/home/u/lib''],
      stderr = [], stdout = []\<rparr>"

text \<open>
  A request to the picker for four characters out of a pool of three, an imaging
  library that draws a glyph as a square of the character's code point, and a
  batch of seven glyphs.
\<close>

definition large_request :: pick_request where
  "large_request = \<lparr>count = 4, seed = Some 42, pool = [65, 66, 67]\<rparr>"

definition square_imaging :: "nat imaging" where
  "square_imaging =
     \<lparr>rasterize = (\<lambda>size c. \<lparr>source_char = c, glyph_width = size, glyph_height = size,
                               glyph_pixels = replicate (size * size) c\<rparr>),
      encode = (\<lambda>img. image_width img # image_height img
                        # concat (map glyph_pixels (concat (cells img))))\<rparr>"

definition seven_glyphs :: "rendered_glyph list" where
  "seven_glyphs = map (rasterize square_imaging 2) [65, 66, 67, 68, 69, 70, 71]"

section \<open>Properties of \<^verbatim>\<open>setup_syspath\<close>\<close>

subsection \<open>The built-in operations\<close>

lemma list_remove_eq:
  "list_remove x xs = (if x \<in> set xs then Some (remove1 x xs) else None)"
  by (induction xs) auto

lemma remove_loop_eq: "remove_loop path sp = removeAll path sp"
proof (induction path sp rule: remove_loop.induct)
  case (1 path sp)
  show ?case
  proof (cases "path \<in> set sp")
    case True
    then have "remove_loop path sp = remove_loop path (remove1 path sp)"
      by (subst remove_loop.simps) (simp add: list_remove_eq)
    also have "\<dots> = removeAll path (remove1 path sp)"
      using True by (intro "1.IH") (simp add: list_remove_eq)
    also have "\<dots> = removeAll path sp"
      by (induction sp) auto
    finally show ?thesis .
  next
    case False
    then show ?thesis
      by (subst remove_loop.simps) (simp add: list_remove_eq)
  qed
qed

lemma remove_paths_eq: "remove_paths rs sp = filter (\<lambda>x. x \<notin> set rs) sp"
proof (induction rs arbitrary: sp)
  case Nil
  show ?case by simp
next
  case (Cons r rs)
  have "filter (\<lambda>x. x \<notin> set rs) (removeAll r sp) = filter (\<lambda>x. x \<notin> set (r # rs)) sp"
    by (induction sp) auto
  with Cons show ?case
    by (simp add: remove_loop_eq)
qed

lemma str_split_not_Nil: "str_split c s \<noteq> []"
  by (induction s) (auto split: list.splits)

lemma str_split_no_sep: "c \<notin> set s \<Longrightarrow> str_split c s = [s]"
  by (induction s) auto

lemma str_split_append_sep:
  "str_split c (x @ c # y) = str_split c x @ str_split c y"
  by (induction x) (auto split: list.splits simp: str_split_not_Nil)

lemma str_split_join:
  "xs \<noteq> [] \<Longrightarrow> str_split c (str_join c xs) = concat (map (str_split c) xs)"
  by (induction c xs rule: str_join.induct) (auto simp: str_split_append_sep)


lemma insert_if_absent_set [simp]: "set (insert_if_absent x xs) = insert x (set xs)"
  by (auto simp: insert_if_absent_def)

lemma insert_if_absent_not_Nil [simp]: "insert_if_absent x xs \<noteq> []"
  by (auto simp: insert_if_absent_def)

lemma setup_syspath_returns:
  assumes "setup_syspath os package_root current_dir w = (w', Inr u)"
  shows "w' = w\<lparr>sys_path :=
               insert_if_absent (dep_root_of os (abspath os package_root))
                 (insert_if_absent (abspath os package_root)
                   (remove_paths (removing_dir_s os current_dir) (sys_path w))),
             environ := (environ w)(''PYTHONPATH'' \<mapsto>
               str_join (pathsep os)
                 (insert_if_absent (dep_root_of os (abspath os package_root))
                   (insert_if_absent (abspath os package_root) (pythonpath_dir_s os w))))\<rparr>"
  using assms
  by (auto simp: setup_syspath_def Let_def pythonpath_dir_s_def pythonpath_entries_def
      split: if_splits)

lemma count_list_insert_if_absent:
  "count_list (insert_if_absent x xs) p =
     (if p = x \<and> x \<notin> set xs then 1 else 0) + count_list xs p"
  by (auto simp: insert_if_absent_def)

lemma removing_dir_s_iff:
  "p \<in> set (removing_dir_s os current_dir) \<longleftrightarrow>
     p = [] \<or> p = ''.'' \<or> (\<exists>d. current_dir = Some d \<and> p = abspath os d)"
  by (auto simp: removing_dir_s_def split: option.splits)

lemmas posix_defs = posix_def posix_abspath_def posix_normpath_def normpath_step_def
  posix_join_def posix_isabs_def posix_dirname_def
lemmas setup_defs = setup_syspath_def Let_def removing_dir_s_def dep_root_of_def
  pythonpath_dir_s_def pythonpath_entries_def insert_if_absent_def remove_paths_eq

lemma example_setup:
  "setup_syspath example_os ''/p'' (Some ''/p/aoikpickchar'') example_world =
     (\<lparr>sys_path = [''/p/aoikpickchardep'', ''/p'', ''/usr/lib/python3''],
       environ = [''PYTHONPATH'' \<mapsto> ''/p/aoikpickchardep:/p:/x:/home/u/lib''],
       stderr = [], stdout = []\<rparr>, Inr ())"
  by (simp add: example_os_def example_world_def posix_defs setup_defs)

lemma example_roots:
  "abspath example_os ''/p'' = ''/p''"
  "dep_root_of example_os ''/p'' = ''/p/aoikpickchardep''"
  "abspath example_os ''/p/aoikpickchar'' = ''/p/aoikpickchar''"
  "pathsep example_os = CHR '':''"
  by (simp_all add: example_os_def posix_defs dep_root_of_def)

subsection \<open>Removal of the script directory\<close>

text \<open>
  Claim C8. After \<^verbatim>\<open>setup_syspath(package_root, current_dir)\<close> returns, every
  occurrence of the empty string, of \<^verbatim>\<open>'.'\<close> and, when \<^verbatim>\<open>current_dir\<close> is given, of
  its absolute path is gone from \<^verbatim>\<open>sys.path\<close>: such a path \<open>p\<close> occurs there once
  when it is the package root or the dependency root, which the function adds again,
  and not at all otherwise.
\<close>

theorem setup_syspath_removes_paths:
  assumes ret: "setup_syspath os package_root current_dir w = (w', Inr ())"
    and p: "p = [] \<or> p = ''.'' \<or> (current_dir = Some d \<and> p = abspath os d)"
  shows "count_list (sys_path w') p =
           (if p = abspath os package_root \<or> p = dep_root_of os (abspath os package_root)
            then 1 else 0)"
proof -
  let ?R = "removing_dir_s os current_dir"
  let ?P0 = "remove_paths ?R (sys_path w)"
  from p have "p \<in> set ?R"
    by (auto simp: removing_dir_s_iff)
  then have "p \<notin> set ?P0"
    by (simp add: remove_paths_eq)
  then have zero: "count_list ?P0 p = 0"
    by (simp add: count_list_0_iff)
  have "sys_path w' =
      insert_if_absent (dep_root_of os (abspath os package_root))
        (insert_if_absent (abspath os package_root) ?P0)"
    using setup_syspath_returns [OF ret] by simp
  with zero \<open>p \<notin> set ?P0\<close> show ?thesis
    by (auto simp: count_list_insert_if_absent)
qed

theorem setup_syspath_removes_paths_witness:
  "snd (setup_syspath example_os ''/p'' (Some ''/p/aoikpickchar'') example_world) = Inr ()
   \<and> count_list (sys_path example_world) ''/p/aoikpickchar'' = 2
   \<and> count_list (sys_path (fst (setup_syspath example_os ''/p'' (Some ''/p/aoikpickchar'')
         example_world))) ''/p/aoikpickchar'' = 0"
proof -
  let ?w' = "fst (setup_syspath example_os ''/p'' (Some ''/p/aoikpickchar'') example_world)"
  have ret: "setup_syspath example_os ''/p'' (Some ''/p/aoikpickchar'') example_world
      = (?w', Inr ())"
    by (simp add: example_setup)
  have p: "''/p/aoikpickchar'' = [] \<or> ''/p/aoikpickchar'' = ''.''
      \<or> (Some ''/p/aoikpickchar'' = Some ''/p/aoikpickchar''
          \<and> ''/p/aoikpickchar'' = abspath example_os ''/p/aoikpickchar'')"
    by (simp add: example_roots)
  have "count_list (sys_path ?w') ''/p/aoikpickchar'' = 0"
    using setup_syspath_removes_paths [OF ret p] by (simp add: example_roots)
  moreover have "count_list (sys_path example_world) ''/p/aoikpickchar'' = 2"
    by (simp add: example_world_def)
  moreover have "snd (setup_syspath example_os ''/p'' (Some ''/p/aoikpickchar'') example_world)
      = Inr ()"
    by (simp add: example_setup)
  ultimately show ?thesis
    by (simp only: simp_thms)
qed

subsection \<open>The roots are on both search paths\<close>

lemma str_split_pieces: "x \<in> set (str_split c s) \<Longrightarrow> c \<notin> set x"
proof (induction s arbitrary: x)
  case Nil
  then show ?case by simp
next
  case (Cons a s)
  show ?case
  proof (cases "a = c")
    case True
    with Cons show ?thesis by auto
  next
    case False
    obtain p ps where rest: "str_split c s = p # ps"
      using str_split_not_Nil [of c s] by (cases "str_split c s") auto
    with Cons.prems False have "x = a # p \<or> x \<in> set ps"
      by simp
    moreover have "c \<notin> set p" and "\<And>y. y \<in> set ps \<Longrightarrow> c \<notin> set y"
      using Cons.IH rest by simp_all
    ultimately show ?thesis
      using False by auto
  qed
qed

lemma entry_of_join_iff:
  assumes "x \<in> set xs"
  shows "x \<in> set (str_split c (str_join c xs)) \<longleftrightarrow> c \<notin> set x"
proof
  assume "x \<in> set (str_split c (str_join c xs))"
  then show "c \<notin> set x"
    by (rule str_split_pieces)
next
  assume "c \<notin> set x"
  then have "str_split c x = [x]"
    by (rule str_split_no_sep)
  moreover from assms have "xs \<noteq> []"
    by auto
  ultimately show "x \<in> set (str_split c (str_join c xs))"
    using assms by (force simp: str_split_join)
qed

text \<open>
  Claim C4, amended. After \<^verbatim>\<open>setup_syspath(package_root, current_dir)\<close> returns, the
  absolute package root and its \<^verbatim>\<open>aoikpickchardep\<close> subdirectory are in \<^verbatim>\<open>sys.path\<close>,
  each prepended when it was not there after the removals; \<^verbatim>\<open>PYTHONPATH\<close> is the
  join of its former entries made absolute, with each root prepended when it was not
  among them; and a root is among the entries of the new \<^verbatim>\<open>PYTHONPATH\<close> exactly when
  it does not contain the path separator \<^verbatim>\<open>os.pathsep\<close>.
\<close>

theorem setup_syspath_adds_roots:
  assumes ret: "setup_syspath os package_root current_dir w = (w', Inr ())"
  shows "abspath os package_root \<in> set (sys_path w')
       \<and> dep_root_of os (abspath os package_root) \<in> set (sys_path w')
       \<and> sys_path w' =
           insert_if_absent (dep_root_of os (abspath os package_root))
             (insert_if_absent (abspath os package_root)
               (remove_paths (removing_dir_s os current_dir) (sys_path w)))
       \<and> environ w' ''PYTHONPATH'' =
           Some (str_join (pathsep os)
             (insert_if_absent (dep_root_of os (abspath os package_root))
               (insert_if_absent (abspath os package_root) (pythonpath_dir_s os w))))
       \<and> (abspath os package_root \<in> set (pythonpath_entries os w')
            \<longleftrightarrow> pathsep os \<notin> set (abspath os package_root))
       \<and> (dep_root_of os (abspath os package_root) \<in> set (pythonpath_entries os w')
            \<longleftrightarrow> pathsep os \<notin> set (dep_root_of os (abspath os package_root)))"
proof -
  let ?pr = "abspath os package_root"
  let ?dr = "dep_root_of os ?pr"
  let ?L = "insert_if_absent ?dr (insert_if_absent ?pr (pythonpath_dir_s os w))"
  note w' = setup_syspath_returns [OF ret]
  have path: "sys_path w' = insert_if_absent ?dr (insert_if_absent ?pr
      (remove_paths (removing_dir_s os current_dir) (sys_path w)))"
    by (subst w') simp
  have env: "environ w' ''PYTHONPATH'' = Some (str_join (pathsep os) ?L)"
    by (subst w') simp
  have entries: "pythonpath_entries os w' = str_split (pathsep os) (str_join (pathsep os) ?L)"
    by (simp add: pythonpath_entries_def env)
  have "?pr \<in> set ?L" and "?dr \<in> set ?L"
    by simp_all
  then have "?pr \<in> set (pythonpath_entries os w') \<longleftrightarrow> pathsep os \<notin> set ?pr"
    and "?dr \<in> set (pythonpath_entries os w') \<longleftrightarrow> pathsep os \<notin> set ?dr"
    unfolding entries by (simp_all only: entry_of_join_iff)
  moreover have "?pr \<in> set (sys_path w')" and "?dr \<in> set (sys_path w')"
    unfolding path by simp_all
  ultimately show ?thesis
    using path env by blast
qed

theorem setup_syspath_adds_roots_witness:
  "snd (setup_syspath example_os ''/p'' (Some ''/p/aoikpickchar'') example_world) = Inr ()
   \<and> ''/p'' \<in> set (sys_path (fst (setup_syspath example_os ''/p'' (Some ''/p/aoikpickchar'')
         example_world)))
   \<and> ''/p/aoikpickchardep'' \<in> set (sys_path (fst (setup_syspath example_os ''/p''
         (Some ''/p/aoikpickchar'') example_world)))
   \<and> ''/p'' \<in> set (pythonpath_entries example_os (fst (setup_syspath example_os ''/p''
         (Some ''/p/aoikpickchar'') example_world)))
   \<and> ''/p/aoikpickchardep'' \<in> set (pythonpath_entries example_os (fst (setup_syspath
         example_os ''/p'' (Some ''/p/aoikpickchar'') example_world)))"
proof -
  let ?w' = "fst (setup_syspath example_os ''/p'' (Some ''/p/aoikpickchar'') example_world)"
  have ret: "setup_syspath example_os ''/p'' (Some ''/p/aoikpickchar'') example_world
      = (?w', Inr ())"
    by (simp add: example_setup)
  have sep_root: "pathsep example_os \<notin> set (abspath example_os ''/p'')"
    by (simp add: example_roots)
  have sep_dep: "pathsep example_os \<notin> set (dep_root_of example_os (abspath example_os ''/p''))"
    by (simp add: example_roots)
  have "abspath example_os ''/p'' \<in> set (sys_path ?w')
      \<and> dep_root_of example_os (abspath example_os ''/p'') \<in> set (sys_path ?w')
      \<and> abspath example_os ''/p'' \<in> set (pythonpath_entries example_os ?w')
      \<and> dep_root_of example_os (abspath example_os ''/p'')
          \<in> set (pythonpath_entries example_os ?w')"
    using setup_syspath_adds_roots [OF ret] sep_root sep_dep by blast
  moreover have "snd (setup_syspath example_os ''/p'' (Some ''/p/aoikpickchar'') example_world)
      = Inr ()"
    by (simp add: example_setup)
  ultimately show ?thesis
    by (simp only: example_roots simp_thms)
qed

text \<open>
  Claim C4 as stated fails for a package root whose name contains the path separator:
  for \<^verbatim>\<open>/a:b\<close> the function returns, and the entries of the \<^verbatim>\<open>PYTHONPATH\<close> it wrote
  do not include \<^verbatim>\<open>/a:b\<close>.
\<close>

theorem setup_syspath_adds_roots_counterexample:
  "snd (setup_syspath colon_os ''/a:b'' None example_world) = Inr ()
   \<and> abspath colon_os ''/a:b'' = ''/a:b''
   \<and> environ (fst (setup_syspath colon_os ''/a:b'' None example_world)) ''PYTHONPATH''
       = Some ''/a:b/aoikpickchardep:/a:b:/x:/home/u/lib''
   \<and> pythonpath_entries colon_os (fst (setup_syspath colon_os ''/a:b'' None example_world))
       = [''/a'', ''b/aoikpickchardep'', ''/a'', ''b'', ''/x'', ''/home/u/lib'']
   \<and> abspath colon_os ''/a:b''
       \<notin> set (pythonpath_entries colon_os (fst (setup_syspath colon_os ''/a:b'' None example_world)))"
  by (simp add: colon_os_def example_world_def posix_defs setup_defs)

subsection \<open>Calling twice\<close>








section \<open>Properties of \<^verbatim>\<open>main\<close>\<close>

subsection \<open>The stages of the \<^verbatim>\<open>try\<close> suite\<close>

text \<open>
  The bootstrap reads only the path functions, \<^verbatim>\<open>__file__\<close> and the loading of
  \<^verbatim>\<open>main_init.py\<close>. An exception leaves the \<^verbatim>\<open>try\<close> suite exactly when the bootstrap
  raises it, or the import of \<^verbatim>\<open>PIL\<close> raises it and it is not an \<^verbatim>\<open>ImportError\<close>
  (which \<^verbatim>\<open>check_deps\<close> handles itself), or the write of the missing-dependency
  message raises it, or the import of the core module raises it, or \<^verbatim>\<open>main_inner\<close>
  raises it.
\<close>

lemma bootstrap_cong:
  assumes "os_lib env' = os_lib env" and "module_file env' = module_file env"
    and "exec_main_init env' = exec_main_init env"
  shows "bootstrap env' w = bootstrap env w"
  by (simp only: bootstrap_def run_setup_syspath_def assms)

lemma write_stderr_ok:
  "stderr_write env text w = None \<Longrightarrow>
     write_stderr env text w = (w\<lparr>stderr := stderr w @ text\<rparr>, Inr ())"
  by (simp add: write_stderr_def)

lemma write_stderr_raises:
  "stderr_write env text w = Some e \<Longrightarrow> write_stderr env text w = (w, Inl e)"
  by (simp add: write_stderr_def)

lemma write_stderr_Inl_iff:
  "write_stderr env text w = (w', Inl e) \<longleftrightarrow> w' = w \<and> stderr_write env text w = Some e"
  by (auto simp: write_stderr_def split: option.splits)

lemma check_deps_Inl_iff:
  "check_deps env w = Inl e \<longleftrightarrow>
     import_module env ''PIL'' w = Some e \<and> (\<forall>m. e \<noteq> ImportError m)"
proof (cases "import_module env ''PIL'' w")
  case None
  then show ?thesis by (simp add: check_deps_def)
next
  case (Some e')
  then show ?thesis by (cases e') (auto simp: check_deps_def)
qed

lemma check_deps_None_iff:
  "check_deps env w = Inr None \<longleftrightarrow> import_module env ''PIL'' w = None"
proof (cases "import_module env ''PIL'' w")
  case None
  then show ?thesis by (simp add: check_deps_def)
next
  case (Some e')
  then show ?thesis by (cases e') (auto simp: check_deps_def)
qed

lemma check_deps_Some_iff:
  "check_deps env w = Inr (Some msg) \<longleftrightarrow>
     (\<exists>m. import_module env ''PIL'' w = Some (ImportError m)) \<and> msg = missing_pil_msg"
proof (cases "import_module env ''PIL'' w")
  case None
  then show ?thesis by (simp add: check_deps_def)
next
  case (Some e')
  then show ?thesis by (cases e') (auto simp: check_deps_def)
qed

lemma main_try_raises_iff:
  "main_try env args w = (w', Inl e) \<longleftrightarrow>
     bootstrap env w = (w', Inl e)
     \<or> (bootstrap env w = (w', Inr ()) \<and> import_module env ''PIL'' w' = Some e
         \<and> (\<forall>m. e \<noteq> ImportError m))
     \<or> (bootstrap env w = (w', Inr ()) \<and> (\<exists>m. import_module env ''PIL'' w' = Some (ImportError m))
         \<and> stderr_write env missing_pil_msg w' = Some e)
     \<or> (bootstrap env w = (w', Inr ()) \<and> import_module env ''PIL'' w' = None
         \<and> import_module env ''aoikpickchar.main_inner'' w' = Some e)
     \<or> (\<exists>w1. bootstrap env w = (w1, Inr ()) \<and> import_module env ''PIL'' w1 = None
         \<and> import_module env ''aoikpickchar.main_inner'' w1 = None
         \<and> main_inner env args w1 = (w', Inl e))"
proof -
  obtain w1 r where boot: "bootstrap env w = (w1, r)"
    by (cases "bootstrap env w")
  show ?thesis
  proof (cases r)
    case (Inl e1)
    with boot show ?thesis
      by (auto simp: main_try_def)
  next
    case (Inr u)
    show ?thesis
    proof (cases "check_deps env w1")
      case (Inl e1)
      then have "import_module env ''PIL'' w1 = Some e1 \<and> (\<forall>m. e1 \<noteq> ImportError m)"
        by (simp add: check_deps_Inl_iff)
      with boot Inr Inl show ?thesis
        by (auto simp: main_try_def)
    next
      case deps: (Inr msg)
      show ?thesis
      proof (cases msg)
        case None
        with deps have pil: "import_module env ''PIL'' w1 = None"
          by (simp add: check_deps_None_iff)
        with boot Inr deps None show ?thesis
          by (cases "import_module env ''aoikpickchar.main_inner'' w1")
            (auto simp: main_try_def)
      next
        case (Some error_msg)
        with deps obtain m where pil: "import_module env ''PIL'' w1 = Some (ImportError m)"
          and msg: "error_msg = missing_pil_msg"
          by (auto simp: check_deps_Some_iff)
        have run: "main_try env args w =
            (case write_stderr env missing_pil_msg w1 of
               (w2, Inl e) \<Rightarrow> (w2, Inl e)
             | (w2, Inr u) \<Rightarrow> (w2, Inr (- 100)))"
          using boot Inr deps Some msg by (simp add: main_try_def)
        show ?thesis
        proof (cases "stderr_write env missing_pil_msg w1")
          case None
          with run boot Inr pil show ?thesis
            by (auto simp: write_stderr_ok)
        next
          case (Some e1)
          with run boot Inr pil show ?thesis
            by (auto simp: write_stderr_raises)
        qed
      qed
    qed
  qed
qed

lemma handle_other_returns:
  assumes "format_exc env e = Inr tb_msg" and "stderr_write env (traceback_msg tb_msg) w = None"
  shows "handle_other env e w = (w\<lparr>stderr := stderr w @ traceback_msg tb_msg\<rparr>, Inr (- 1))"
  using assms by (simp add: handle_other_def write_stderr_ok)


lemma main_of_other:
  assumes "main_try env args w = (w', Inl e)" and "e \<noteq> KeyboardInterrupt"
    and "\<forall>c. e \<noteq> SystemExit c"
  shows "main env args w = handle_other env e w'"
  using assms by (cases e) (simp_all add: main_def)

lemma example_paths:
  "abspath example_os ''/p/aoikpickchar/__main__.py'' = ''/p/aoikpickchar/__main__.py''"
  "dirname example_os ''/p/aoikpickchar/__main__.py'' = ''/p/aoikpickchar''"
  "dirname example_os ''/p/aoikpickchar'' = ''/p''"
  "join example_os ''/p'' ''aoikpickchar'' = ''/p/aoikpickchar''"
  "join example_os ''/p/aoikpickchar'' ''main_init.py'' = ''/p/aoikpickchar/main_init.py''"
  "isabs example_os ''/p''"
  "isabs example_os ''/p/aoikpickchar/main_init.py''"
  "isfile example_os ''/p/aoikpickchar/main_init.py''"
  by (simp_all add: example_os_def posix_defs)

lemma example_bootstrap: "bootstrap no_pil_env example_world = (booted_world, Inr ())"
proof -
  have "bootstrap no_pil_env example_world
      = setup_syspath example_os ''/p'' (Some ''/p/aoikpickchar'') example_world"
    by (simp add: bootstrap_def run_setup_syspath_def no_pil_env_def example_paths example_roots)
  then show ?thesis
    by (simp add: example_setup booted_world_def)
qed

lemma example_bootstrap_others:
  "bootstrap no_core_env example_world = (booted_world, Inr ())"
  "bootstrap failing_env example_world = (booted_world, Inr ())"
  "bootstrap interrupted_env example_world = (booted_world, Inr ())"
  "bootstrap exiting_env example_world = (booted_world, Inr ())"
  "bootstrap closed_stderr_env example_world = (booted_world, Inr ())"
  "bootstrap interrupted_write_env example_world = (booted_world, Inr ())"
  "bootstrap no_stderr_env example_world = (booted_world, Inr ())"
  by (simp_all add: bootstrap_cong [of _ no_pil_env] example_bootstrap
      no_core_env_def failing_env_def interrupted_env_def exiting_env_def
      closed_stderr_env_def interrupted_write_env_def no_stderr_env_def)

lemma failing_runs:
  "main_try failing_env None example_world
     = (booted_world\<lparr>stdout := ''ok''\<rparr>, Inl (Exception ''FontLoadError''))"
  "main_try closed_stderr_env None example_world
     = (booted_world\<lparr>stdout := ''ok''\<rparr>, Inl (Exception ''FontLoadError''))"
  "main_try interrupted_write_env None example_world
     = (booted_world\<lparr>stdout := ''ok''\<rparr>, Inl (Exception ''FontLoadError''))"
  unfolding main_try_def example_bootstrap_others
  by (simp_all add: check_deps_def failing_env_def closed_stderr_env_def
      interrupted_write_env_def no_pil_env_def booted_world_def)

subsection \<open>The missing dependency\<close>

text \<open>
  Claim C1, amended. For every run in which the bootstrap (\<^verbatim>\<open>run_setup_syspath\<close>)
  returns, the import of \<^verbatim>\<open>PIL\<close> raises \<^verbatim>\<open>ImportError\<close> and the write to the error
  stream succeeds, \<^verbatim>\<open>main\<close> appends the message
  \<^verbatim>\<open>Error: Package `PIL` is not installed. Try:\<close> / \<^verbatim>\<open>pip install pillow\<close> to the error
  stream and returns \<open>-100\<close>, which is neither the code of success nor the code \<open>-1\<close>
  of unhandled failures; and the run does not depend on \<^verbatim>\<open>main_inner\<close>, on the import
  of any other module or on the traceback text, so the rendering pipeline is not
  attempted.
\<close>

theorem main_missing_dependency:
  assumes boot: "bootstrap env w = (w1, Inr ())"
    and pil: "import_module env ''PIL'' w1 = Some (ImportError m)"
    and written: "stderr_write env missing_pil_msg w1 = None"
  shows "main env args w
           = (w1\<lparr>stderr := stderr w1 @ ''Error: Package `PIL` is not installed. Try:''
                  @ [CHR 0x0A] @ ''pip install pillow'' @ [CHR 0x0A]\<rparr>, Inr (- 100))
       \<and> (- 100 :: int) \<noteq> 0 \<and> (- 100 :: int) \<noteq> - 1
       \<and> (\<forall>env'. os_lib env' = os_lib env \<and> module_file env' = module_file env
              \<and> exec_main_init env' = exec_main_init env
              \<and> import_module env' ''PIL'' = import_module env ''PIL''
              \<and> stderr_write env' = stderr_write env
            \<longrightarrow> main env' args w = main env args w)"
proof -
  have result: "main e args w = (w1\<lparr>stderr := stderr w1 @ missing_pil_msg\<rparr>, Inr (- 100))"
    if "bootstrap e w = (w1, Inr ())" and "import_module e ''PIL'' w1 = Some (ImportError m)"
      and "stderr_write e missing_pil_msg w1 = None"
    for e
  proof -
    from that(2) have "check_deps e w1 = Inr (Some missing_pil_msg)"
      by (simp add: check_deps_def)
    with that(1,3) have "main_try e args w
        = (w1\<lparr>stderr := stderr w1 @ missing_pil_msg\<rparr>, Inr (- 100))"
      by (simp add: main_try_def write_stderr_ok)
    then show ?thesis
      by (simp add: main_def)
  qed
  have indep: "main env' args w = main env args w"
    if same: "os_lib env' = os_lib env \<and> module_file env' = module_file env
        \<and> exec_main_init env' = exec_main_init env
        \<and> import_module env' ''PIL'' = import_module env ''PIL''
        \<and> stderr_write env' = stderr_write env" for env'
  proof -
    from same have "bootstrap env' w = bootstrap env w"
      by (intro bootstrap_cong) simp_all
    with boot have boot': "bootstrap env' w = (w1, Inr ())"
      by simp
    from same pil have pil': "import_module env' ''PIL'' w1 = Some (ImportError m)"
      by simp
    from same written have written': "stderr_write env' missing_pil_msg w1 = None"
      by simp
    show ?thesis
      by (simp only: result [OF boot' pil' written'] result [OF boot pil written])
  qed
  have codes: "(- 100 :: int) \<noteq> 0 \<and> (- 100 :: int) \<noteq> - 1"
    by simp
  have msg: "missing_pil_msg = ''Error: Package `PIL` is not installed. Try:''
      @ [CHR 0x0A] @ ''pip install pillow'' @ [CHR 0x0A]"
    by (simp add: missing_pil_msg_def)
  from result [OF boot pil written] codes indep show ?thesis
    unfolding msg by blast
qed

theorem main_missing_dependency_witness:
  "bootstrap no_pil_env example_world = (booted_world, Inr ())
   \<and> import_module no_pil_env ''PIL'' booted_world = Some (ImportError ''PIL'')
   \<and> main no_pil_env None example_world
       = (booted_world\<lparr>stderr := ''Error: Package `PIL` is not installed. Try:''
            @ [CHR 0x0A] @ ''pip install pillow'' @ [CHR 0x0A]\<rparr>, Inr (- 100))
   \<and> main (no_pil_env\<lparr>main_inner := (\<lambda>args w. (w, Inr 7))\<rparr>) None example_world
       = main no_pil_env None example_world"
proof -
  have pil: "import_module no_pil_env ''PIL'' booted_world = Some (ImportError ''PIL'')"
    by (simp add: no_pil_env_def)
  have written: "stderr_write no_pil_env missing_pil_msg booted_world = None"
    by (simp add: no_pil_env_def)
  note inst = main_missing_dependency [OF example_bootstrap pil written, of None]
  have "stderr booted_world = []"
    by (simp add: booted_world_def)
  with inst have "main no_pil_env None example_world
      = (booted_world\<lparr>stderr := ''Error: Package `PIL` is not installed. Try:''
            @ [CHR 0x0A] @ ''pip install pillow'' @ [CHR 0x0A]\<rparr>, Inr (- 100))"
    by simp
  moreover from inst have "main (no_pil_env\<lparr>main_inner := (\<lambda>args w. (w, Inr 7))\<rparr>) None
      example_world = main no_pil_env None example_world"
    by simp
  ultimately show ?thesis
    using example_bootstrap pil by blast
qed

text \<open>
  Claim C1 as stated fails when the bootstrap fails first: with \<^verbatim>\<open>PIL\<close> not installed
  and the directory \<^verbatim>\<open>aoikpickchardep\<close> missing, the assertion of line 77 of
  \<^verbatim>\<open>main_init.py\<close> raises before \<^verbatim>\<open>check_deps\<close> is called, and \<^verbatim>\<open>main\<close> returns \<open>-1\<close>
  with a traceback instead of the message.
\<close>

theorem main_missing_dependency_counterexample:
  "import_module no_dep_dir_env ''PIL'' example_world = Some (ImportError ''PIL'')
   \<and> import_module no_dep_dir_env ''PIL'' (fst (bootstrap no_dep_dir_env example_world))
       = Some (ImportError ''PIL'')
   \<and> snd (bootstrap no_dep_dir_env example_world) = Inl (AssertionError ''/p/aoikpickchardep'')
   \<and> snd (main no_dep_dir_env None example_world) = Inr (- 1)
   \<and> snd (main no_dep_dir_env None example_world) \<noteq> Inr (- 100)
   \<and> stderr (fst (main no_dep_dir_env None example_world))
       = ''Traceback:'' @ [CHR 0x0A] @ ''---'' @ [CHR 0x0A] @ ''trace'' @ [CHR 0x0A]
         @ ''---'' @ [CHR 0x0A]"
proof -
  have boot: "bootstrap no_dep_dir_env example_world
      = (\<lparr>sys_path = [''/p'', ''/usr/lib/python3''],
          environ = [''PYTHONPATH'' \<mapsto> ''/x:lib''], stderr = [], stdout = []\<rparr>,
         Inl (AssertionError ''/p/aoikpickchardep''))"
    by (simp add: no_dep_dir_env_def no_pil_env_def bootstrap_def run_setup_syspath_def
        example_os_def example_world_def posix_defs setup_defs)
  have pil: "import_module no_dep_dir_env ''PIL'' w = Some (ImportError ''PIL'')" for w
    by (simp add: no_dep_dir_env_def no_pil_env_def)
  have run: "main_try no_dep_dir_env None example_world
      = (\<lparr>sys_path = [''/p'', ''/usr/lib/python3''],
          environ = [''PYTHONPATH'' \<mapsto> ''/x:lib''], stderr = [], stdout = []\<rparr>,
         Inl (AssertionError ''/p/aoikpickchardep''))"
    unfolding main_try_def boot by simp
  have "main no_dep_dir_env None example_world
      = (\<lparr>sys_path = [''/p'', ''/usr/lib/python3''],
          environ = [''PYTHONPATH'' \<mapsto> ''/x:lib''],
          stderr = ''Traceback:'' @ [CHR 0x0A] @ ''---'' @ [CHR 0x0A] @ ''trace'' @ [CHR 0x0A]
            @ ''---'' @ [CHR 0x0A],
          stdout = []\<rparr>, Inr (- 1))"
    unfolding main_def run
    by (simp add: handle_other_def write_stderr_def traceback_msg_def no_dep_dir_env_def
        no_pil_env_def)
  with boot pil show ?thesis
    by simp
qed

subsection \<open>Unhandled failures\<close>

text \<open>
  Claim C2, amended. For every exception other than \<^verbatim>\<open>SystemExit\<close> and
  \<^verbatim>\<open>KeyboardInterrupt\<close> that leaves the \<^verbatim>\<open>try\<close> suite of \<^verbatim>\<open>main\<close>, provided
  \<^verbatim>\<open>format_exc()\<close> and the write to the error stream in the handler complete,
  \<^verbatim>\<open>main\<close> returns \<open>-1\<close>, which differs from the code \<open>-100\<close> of the missing dependency,
  and appends \<^verbatim>\<open>Traceback:\<close>, \<^verbatim>\<open>---\<close>, the traceback text and \<^verbatim>\<open>---\<close> to the error
  stream; the success stream stays as it was when the exception was raised.
\<close>

theorem main_unhandled_exception:
  assumes raised: "main_try env args w = (w', Inl e)"
    and not_interrupt: "e \<noteq> KeyboardInterrupt"
    and not_exit: "\<forall>c. e \<noteq> SystemExit c"
    and formatted: "format_exc env e = Inr tb_msg"
    and written: "stderr_write env (traceback_msg tb_msg) w' = None"
  shows "main env args w =
           (w'\<lparr>stderr := stderr w' @ ''Traceback:'' @ [CHR 0x0A] @ ''---'' @ [CHR 0x0A]
                  @ tb_msg @ ''---'' @ [CHR 0x0A]\<rparr>, Inr (- 1))
       \<and> (- 1 :: int) \<noteq> 0 \<and> (- 1 :: int) \<noteq> - 100
       \<and> stdout (fst (main env args w)) = stdout w'"
proof -
  have "main env args w = handle_other env e w'"
    using raised not_interrupt not_exit by (rule main_of_other)
  also have "\<dots> = (w'\<lparr>stderr := stderr w' @ traceback_msg tb_msg\<rparr>, Inr (- 1))"
    using formatted written by (rule handle_other_returns)
  finally show ?thesis
    by (simp add: traceback_msg_def)
qed

theorem main_unhandled_exception_witness:
  "main_try failing_env None example_world
     = (booted_world\<lparr>stdout := ''ok''\<rparr>, Inl (Exception ''FontLoadError''))
   \<and> main failing_env None example_world
     = (booted_world\<lparr>stdout := ''ok'',
          stderr := ''Traceback:'' @ [CHR 0x0A] @ ''---'' @ [CHR 0x0A] @ ''trace''
            @ [CHR 0x0A] @ ''---'' @ [CHR 0x0A]\<rparr>,
        Inr (- 1))
   \<and> stdout (fst (main failing_env None example_world)) = ''ok''"
proof -
  have "Exception ''FontLoadError'' \<noteq> KeyboardInterrupt"
    and "\<forall>c. Exception ''FontLoadError'' \<noteq> SystemExit c"
    by simp_all
  moreover have "format_exc failing_env (Exception ''FontLoadError'') = Inr (''trace'' @ [CHR 0x0A])"
    and "stderr_write failing_env (traceback_msg (''trace'' @ [CHR 0x0A]))
        (booted_world\<lparr>stdout := ''ok''\<rparr>) = None"
    by (simp_all add: failing_env_def no_pil_env_def)
  ultimately show ?thesis
    using main_unhandled_exception [OF failing_runs(1)] failing_runs(1)
    by (simp add: booted_world_def)
qed

text \<open>
  Claim C2 as stated fails when the error stream does not work: \<^verbatim>\<open>main_inner\<close> raises,
  the handler's write to the closed stream raises \<^verbatim>\<open>ValueError\<close>, nothing is written,
  and \<^verbatim>\<open>main\<close> returns no exit code: the \<^verbatim>\<open>ValueError\<close> reaches the caller.
\<close>

theorem main_unhandled_exception_counterexample:
  "main_try closed_stderr_env None example_world
     = (booted_world\<lparr>stdout := ''ok''\<rparr>, Inl (Exception ''FontLoadError''))
   \<and> main closed_stderr_env None example_world
     = (booted_world\<lparr>stdout := ''ok''\<rparr>, Inl (Exception ''ValueError''))
   \<and> snd (main closed_stderr_env None example_world) \<noteq> Inr (- 1)
   \<and> stderr (fst (main closed_stderr_env None example_world)) = []"
proof -
  have "main closed_stderr_env None example_world
      = (booted_world\<lparr>stdout := ''ok''\<rparr>, Inl (Exception ''ValueError''))"
    unfolding main_def failing_runs
    by (simp add: handle_other_def write_stderr_def closed_stderr_env_def failing_env_def
        no_pil_env_def)
  then show ?thesis
    using failing_runs(2) by (simp add: booted_world_def)
qed

subsection \<open>Interruption by the user\<close>

text \<open>
  Claim C3, amended. When \<^verbatim>\<open>KeyboardInterrupt\<close> is raised at any stage of the \<^verbatim>\<open>try\<close>
  suite of \<^verbatim>\<open>main\<close> (in the bootstrap, in the import of \<^verbatim>\<open>PIL\<close>, in the write of the
  missing-dependency message, in the import of the core module or in \<^verbatim>\<open>main_inner\<close>),
  \<^verbatim>\<open>main\<close> returns the exit code \<open>0\<close>, in the state reached when the interrupt was
  raised.
\<close>

theorem main_keyboard_interrupt:
  assumes "bootstrap env w = (w', Inl KeyboardInterrupt)
     \<or> (bootstrap env w = (w', Inr ()) \<and> import_module env ''PIL'' w' = Some KeyboardInterrupt)
     \<or> (bootstrap env w = (w', Inr ()) \<and> import_module env ''PIL'' w' = Some (ImportError m)
         \<and> stderr_write env missing_pil_msg w' = Some KeyboardInterrupt)
     \<or> (bootstrap env w = (w', Inr ()) \<and> import_module env ''PIL'' w' = None
         \<and> import_module env ''aoikpickchar.main_inner'' w' = Some KeyboardInterrupt)
     \<or> (\<exists>w1. bootstrap env w = (w1, Inr ()) \<and> import_module env ''PIL'' w1 = None
         \<and> import_module env ''aoikpickchar.main_inner'' w1 = None
         \<and> main_inner env args w1 = (w', Inl KeyboardInterrupt))"
  shows "main env args w = (w', Inr 0)"
proof -
  have "\<forall>m. KeyboardInterrupt \<noteq> ImportError m"
    by simp
  with assms have "main_try env args w = (w', Inl KeyboardInterrupt)"
    unfolding main_try_raises_iff by blast
  then show ?thesis
    by (simp add: main_def)
qed

theorem main_keyboard_interrupt_witness:
  "main_inner interrupted_env None booted_world
     = (booted_world\<lparr>stdout := ''ok''\<rparr>, Inl KeyboardInterrupt)
   \<and> main interrupted_env None example_world = (booted_world\<lparr>stdout := ''ok''\<rparr>, Inr 0)"
proof -
  have stage: "bootstrap interrupted_env example_world = (booted_world, Inr ())
      \<and> import_module interrupted_env ''PIL'' booted_world = None
      \<and> import_module interrupted_env ''aoikpickchar.main_inner'' booted_world = None
      \<and> main_inner interrupted_env None booted_world
          = (booted_world\<lparr>stdout := ''ok''\<rparr>, Inl KeyboardInterrupt)"
    by (simp add: example_bootstrap_others) (simp add: interrupted_env_def no_pil_env_def booted_world_def)
  then have "main interrupted_env None example_world = (booted_world\<lparr>stdout := ''ok''\<rparr>, Inr 0)"
    by (intro main_keyboard_interrupt) blast
  with stage show ?thesis
    by blast
qed

text \<open>
  Claim C3 as stated fails for an interrupt inside the last handler, which is inside
  \<^verbatim>\<open>main\<close> but outside the \<^verbatim>\<open>try\<close> suite: \<^verbatim>\<open>main_inner\<close> raises, and while the handler
  writes the traceback the user interrupts; the \<^verbatim>\<open>KeyboardInterrupt\<close> reaches the caller
  and \<^verbatim>\<open>main\<close> returns no exit code.
\<close>

theorem main_keyboard_interrupt_counterexample:
  "main_try interrupted_write_env None example_world
     = (booted_world\<lparr>stdout := ''ok''\<rparr>, Inl (Exception ''FontLoadError''))
   \<and> stderr_write interrupted_write_env
        (traceback_msg (''trace'' @ [CHR 0x0A])) (booted_world\<lparr>stdout := ''ok''\<rparr>)
     = Some KeyboardInterrupt
   \<and> main interrupted_write_env None example_world
     = (booted_world\<lparr>stdout := ''ok''\<rparr>, Inl KeyboardInterrupt)
   \<and> snd (main interrupted_write_env None example_world) \<noteq> Inr 0"
proof -
  have "main interrupted_write_env None example_world
      = (booted_world\<lparr>stdout := ''ok''\<rparr>, Inl KeyboardInterrupt)"
    unfolding main_def failing_runs
    by (simp add: handle_other_def write_stderr_def interrupted_write_env_def failing_env_def
        no_pil_env_def)
  moreover have "stderr_write interrupted_write_env
        (traceback_msg (''trace'' @ [CHR 0x0A])) (booted_world\<lparr>stdout := ''ok''\<rparr>)
      = Some KeyboardInterrupt"
    by (simp add: interrupted_write_env_def)
  ultimately show ?thesis
    using failing_runs(3) by simp
qed

subsection \<open>What reaches the caller\<close>




section \<open>Properties of the picker and the composer\<close>

subsection \<open>The draws\<close>

lemma draw_with_replacement_length:
  "cs \<noteq> [] \<Longrightarrow> length (draw_with_replacement nxt cs n g) = n"
  by (induction n arbitrary: g) (auto split: prod.splits)

lemma draw_with_replacement_subset:
  "set (draw_with_replacement nxt cs n g) \<subseteq> set cs"
  by (induction n arbitrary: g) (auto split: prod.splits)

lemma draw_with_replacement_pos:
  "0 < n \<Longrightarrow> cs \<noteq> [] \<Longrightarrow>
     draw_with_replacement nxt cs n g =
       cs ! (fst (nxt g) mod length cs) # draw_with_replacement nxt cs (n - 1) (snd (nxt g))"
  by (cases n) (auto split: prod.splits)

lemma lcg_steps:
  "seed_state lcg 42 = 42"
  "next_draw lcg 42 = (0, 1250496027)"
  "next_draw lcg 1250496027 = (19081, 1116302264)"
  "next_draw lcg 1116302264 = (17033, 1000676753)"
  "next_draw lcg 1000676753 = (15269, 1668674806)"
  by (simp_all add: lcg_def)

lemma large_request_pick: "pick lcg e True large_request = Inr [65, 66, 67, 67]"
  by (simp add: pick_def large_request_def draw_with_replacement_pos lcg_steps nth_Cons')

subsection \<open>More characters than the pool holds\<close>

text \<open>
  Claim C6. For every PickRequest whose count exceeds the size of its (non-empty) pool,
  the Character Picker without replacement fails with InsufficientPoolError; with
  replacement it succeeds with \<open>count\<close> characters of the pool, and the sequence
  contains a duplicate.
\<close>

theorem pick_more_than_pool:
  assumes more: "length (pool req) < count req"
    and nonempty: "pool req \<noteq> []"
  shows "pick gen entropy False req = Inl InsufficientPoolError
       \<and> (\<exists>cs. pick gen entropy True req = Inr cs \<and> length cs = count req
              \<and> set cs \<subseteq> set (pool req) \<and> \<not> distinct cs)"
proof -
  let ?g = "case seed req of Some s \<Rightarrow> seed_state gen s | None \<Rightarrow> entropy"
  let ?cs = "draw_with_replacement (next_draw gen) (pool req) (count req) ?g"
  have without: "pick gen entropy False req = Inl InsufficientPoolError"
    using more by (simp add: pick_def)
  have with_r: "pick gen entropy True req = Inr ?cs"
    by (simp add: pick_def)
  have len: "length ?cs = count req"
    using nonempty by (rule draw_with_replacement_length)
  have sub: "set ?cs \<subseteq> set (pool req)"
    by (rule draw_with_replacement_subset)
  have "\<not> distinct ?cs"
  proof
    assume "distinct ?cs"
    then have "length ?cs = card (set ?cs)"
      by (simp add: distinct_card)
    also have "\<dots> \<le> card (set (pool req))"
      using sub by (intro card_mono) simp_all
    also have "\<dots> \<le> length (pool req)"
      by (rule card_length)
    finally show False
      using more len by simp
  qed
  with without with_r len sub show ?thesis
    by blast
qed

theorem pick_more_than_pool_witness:
  "length (pool large_request) < count large_request
   \<and> pick lcg 7 False large_request = Inl InsufficientPoolError
   \<and> pick lcg 7 True large_request = Inr [65, 66, 67, 67]
   \<and> \<not> distinct [65, 66, 67, 67 :: nat]"
proof -
  have more: "length (pool large_request) < count large_request"
    and nonempty: "pool large_request \<noteq> []"
    by (simp_all add: large_request_def)
  have "\<not> distinct [65, 66, 67, 67 :: nat]"
    by simp
  with pick_more_than_pool [OF more nonempty, of lcg 7] more large_request_pick [of 7]
  show ?thesis
    by blast
qed

subsection \<open>The rows of a grid\<close>

text \<open>
  The rows of the placement hold all glyphs in pick order, none is empty and none has
  more than \<open>columns\<close> glyphs; their number is the quotient rounded up.
\<close>

lemma grid_rows_Nil: "grid_rows columns [] = []"
  by (simp add: grid_rows.simps)

lemma grid_rows_step:
  "0 < columns \<Longrightarrow> gs \<noteq> [] \<Longrightarrow>
     grid_rows columns gs = take columns gs # grid_rows columns (drop columns gs)"
  by (subst grid_rows.simps) simp

lemma grid_rows_concat: "0 < columns \<Longrightarrow> concat (grid_rows columns gs) = gs"
proof (induction columns gs rule: grid_rows.induct)
  case (1 columns gs)
  then show ?case
    by (cases "gs = []") (simp_all add: grid_rows_Nil grid_rows_step)
qed

lemma grid_rows_row:
  "0 < columns \<Longrightarrow> row \<in> set (grid_rows columns gs) \<Longrightarrow> row \<noteq> [] \<and> length row \<le> columns"
proof (induction columns gs rule: grid_rows.induct)
  case (1 columns gs)
  then show ?case
    by (cases "gs = []") (auto simp: grid_rows_Nil grid_rows_step)
qed

lemma ceil_div_step:
  fixes n c :: nat
  assumes "0 < c" and "0 < n"
  shows "- (- int n div int c) = 1 + - (- int (n - c) div int c)"
proof (cases "c \<le> n")
  case True
  then have "- int (n - c) = - int n + int c"
    by simp
  moreover have "(- int n + int c) div int c = - int n div int c + 1"
    using assms by (subst div_add_self2) simp_all
  ultimately show ?thesis
    by simp
next
  case False
  then have "- int n div int c = - 1"
    using assms by (simp add: zdiv_zminus1_eq_if)
  with False show ?thesis
    by simp
qed

lemma grid_rows_length:
  "0 < columns \<Longrightarrow> int (length (grid_rows columns gs)) = - (- int (length gs) div int columns)"
proof (induction columns gs rule: grid_rows.induct)
  case (1 columns gs)
  show ?case
  proof (cases "gs = []")
    case True
    then show ?thesis
      by (simp add: grid_rows_Nil)
  next
    case False
    with 1 have "int (length (grid_rows columns (drop columns gs)))
        = - (- int (length gs - columns) div int columns)"
      by simp
    with False "1.prems" show ?thesis
      by (simp add: grid_rows_step ceil_div_step [of columns "length gs"])
  qed
qed

text \<open>
  Claim C7. The Image Composer fails with EmptyBatchError on an empty glyph sequence,
  and for every non-empty sequence of \<open>N\<close> glyphs composed in \<open>grid\<close> mode with
  column count \<open>C > 0\<close> it produces a grid of \<open>\<lceil>N / C\<rceil>\<close> rows, which hold the glyphs
  in order, at most \<open>C\<close> in a row.
\<close>

theorem compose_grid_rows:
  "compose lay padding_px [] = Inl EmptyBatchError
   \<and> (gs \<noteq> [] \<and> 0 < columns \<longrightarrow>
       (\<exists>img. compose (Grid columns) padding_px gs = Inr img
          \<and> int (length (cells img)) = \<lceil>real (length gs) / real columns\<rceil>
          \<and> concat (cells img) = gs
          \<and> (\<forall>row \<in> set (cells img). row \<noteq> [] \<and> length row \<le> columns)))"
proof -
  have empty: "compose lay padding_px [] = Inl EmptyBatchError"
    by (simp add: compose_def)
  have grid: "\<exists>img. compose (Grid columns) padding_px gs = Inr img
      \<and> int (length (cells img)) = \<lceil>real (length gs) / real columns\<rceil>
      \<and> concat (cells img) = gs
      \<and> (\<forall>row \<in> set (cells img). row \<noteq> [] \<and> length row \<le> columns)"
    if "gs \<noteq> []" and "0 < columns"
  proof -
    have "\<lceil>real (length gs) / real columns\<rceil> = - (- int (length gs) div int columns)"
      using ceiling_divide_eq_div [of "int (length gs)" "int columns", where ?'a = real]
      by simp
    moreover have "\<forall>row \<in> set (grid_rows columns gs). row \<noteq> [] \<and> length row \<le> columns"
      using that(2) by (blast dest: grid_rows_row)
    ultimately show ?thesis
      using that by (simp add: compose_def Let_def grid_rows_length grid_rows_concat)
  qed
  from empty grid show ?thesis
    by blast
qed

theorem compose_grid_rows_witness:
  "length seven_glyphs = 7
   \<and> compose (Grid 3) 1 [] = Inl EmptyBatchError
   \<and> (\<exists>img. compose (Grid 3) 1 seven_glyphs = Inr img \<and> length (cells img) = 3
          \<and> concat (cells img) = seven_glyphs)"
proof -
  have len: "length seven_glyphs = 7"
    by (simp add: seven_glyphs_def)
  then have nonempty: "seven_glyphs \<noteq> [] \<and> 0 < (3::nat)"
    by auto
  have ceil: "\<lceil>real (length seven_glyphs) / real 3\<rceil> = 3"
    by (simp add: len)
  from compose_grid_rows [of "Grid 3" 1 seven_glyphs 3] nonempty
  obtain img where img: "compose (Grid 3) 1 seven_glyphs = Inr img"
    "int (length (cells img)) = \<lceil>real (length seven_glyphs) / real 3\<rceil>"
    "concat (cells img) = seven_glyphs"
    by blast
  from img(2) ceil have "length (cells img) = 3"
    by simp
  with img(1,3) have "\<exists>img. compose (Grid 3) 1 seven_glyphs = Inr img
      \<and> length (cells img) = 3 \<and> concat (cells img) = seven_glyphs"
    by blast
  with len compose_grid_rows [of "Grid 3" 1 seven_glyphs 3] show ?thesis
    by blast
qed

end
